theory Spec2Isabelle
  imports Main "HOL-Library.Word"
begin

unbundle bit_operations_syntax

section \<open>Consensus parameters (src/consensus/params.h)\<close>

subsection \<open>Machine integers\<close>

text \<open>
  The header uses \<open>int\<close> (32 bits, two's complement), \<open>int64_t\<close>, \<open>uint32_t\<close>,
  \<open>uint8_t\<close> (the underlying type of \<open>LLMQType\<close>) and \<open>uint256\<close>. Each is a word of
  its width; the signed ones are read with \<open>sint\<close> and compared with \<open><s\<close>.
\<close>

type_synonym c_int = "32 word"
type_synonym int64_t = "64 word"
type_synonym uint32_t = "32 word"
type_synonym uint8_t = "8 word"
type_synonym uint256 = "256 word"

subsection \<open>enum DeploymentPos\<close>

datatype DeploymentPos =
    DEPLOYMENT_TESTDUMMY
  | DEPLOYMENT_CSV
  | DEPLOYMENT_DIP0001
  | DEPLOYMENT_BIP147
  | DEPLOYMENT_DIP0003
  | DEPLOYMENT_DIP0008

text \<open>
  The enumerators in declaration order; the last enumerator of the source,
  \<open>MAX_VERSION_BITS_DEPLOYMENTS\<close>, is their number and the length of the array
  \<open>vDeployments\<close>.
\<close>

definition all_DeploymentPos :: "DeploymentPos list" where
  "all_DeploymentPos =
     [DEPLOYMENT_TESTDUMMY, DEPLOYMENT_CSV, DEPLOYMENT_DIP0001,
      DEPLOYMENT_BIP147, DEPLOYMENT_DIP0003, DEPLOYMENT_DIP0008]"

definition MAX_VERSION_BITS_DEPLOYMENTS :: nat where
  "MAX_VERSION_BITS_DEPLOYMENTS = 6"

subsection \<open>struct BIP9Deployment\<close>

text \<open>The field \<open>bit\<close> of the source is \<open>bit_pos\<close> here: \<open>bit\<close> is a constant of HOL.\<close>

record BIP9Deployment =
  bit_pos :: c_int
  nStartTime :: int64_t
  nTimeout :: int64_t
  nWindowSize :: int64_t
  nThreshold :: int64_t

subsection \<open>enum LLMQType : uint8_t\<close>

text \<open>
  An enumeration with a fixed underlying type holds every value of that type, so a
  quorum type is a byte and the enumerators are constants.
\<close>

type_synonym LLMQType = uint8_t

definition LLMQ_NONE :: LLMQType where "LLMQ_NONE = 0xff"
definition LLMQ_50_60 :: LLMQType where "LLMQ_50_60 = 1"
definition LLMQ_400_60 :: LLMQType where "LLMQ_400_60 = 2"
definition LLMQ_400_85 :: LLMQType where "LLMQ_400_85 = 3"
definition LLMQ_10_60 :: LLMQType where "LLMQ_10_60 = 4"
definition LLMQ_30_80 :: LLMQType where "LLMQ_30_80 = 6"
definition LLMQ_5_60 :: LLMQType where "LLMQ_5_60 = 100"

subsection \<open>struct LLMQParams\<close>

text \<open>The fields \<open>type\<close>, \<open>name\<close> and \<open>size\<close> of the source carry the prefix \<open>llmq_\<close>.\<close>

record LLMQParams =
  llmq_type :: LLMQType
  llmq_name :: string
  llmq_size :: c_int
  minSize :: c_int
  threshold :: c_int
  dkgInterval :: c_int
  dkgPhaseBlocks :: c_int
  dkgMiningWindowStart :: c_int
  dkgMiningWindowEnd :: c_int
  dkgBadVotesThreshold :: c_int
  signingActiveQuorumCount :: c_int
  keepOldConnections :: c_int

subsection \<open>struct Params\<close>

record Params =
  hashGenesisBlock :: uint256
  hashDevnetGenesisBlock :: uint256
  nHardForkOne :: c_int
  nHardForkTwo :: c_int
  nHardForkThree :: c_int
  nHardForkFour :: c_int
  nHardForkFive :: c_int
  nHardForkSix :: c_int
  nHardForkSeven :: c_int
  nHardForkEight :: c_int
  nTempDevFundIncreaseEnd :: c_int
  nSubsidyHalvingInterval :: c_int
  nMasternodePaymentsStartBlock :: c_int
  nInstantSendConfirmationsRequired :: c_int
  nInstantSendKeepLock :: c_int
  nInstantSendSigsRequired :: c_int
  nInstantSendSigsTotal :: c_int
  nBudgetPaymentsStartBlock :: c_int
  nBudgetPaymentsCycleBlocks :: c_int
  nBudgetPaymentsWindowBlocks :: c_int
  nSuperblockStartBlock :: c_int
  nSuperblockStartHash :: uint256
  nSuperblockCycle :: c_int
  nGovernanceMinQuorum :: c_int
  nGovernanceFilterElements :: c_int
  nOldMasternodeCollateral :: c_int
  nNewMasternodeCollateral :: c_int
  nMasternodeMinimumConfirmations :: c_int
  DIP0001Height :: c_int
  nIntPhaseTotalBlocks :: c_int
  nBlocksPerYear :: c_int
  DIP0003Height :: c_int
  DIP0003EnforcementHeight :: c_int
  DIP0003EnforcementHash :: uint256
  LLMQSwitchHeight :: c_int
  DIP0006EnforcementHeight :: c_int
  DIP0006EnforcementHash :: uint256
  DIP0008Height :: c_int
  DIP0008EnforcementHeight :: c_int
  DIP0008EnforcementHash :: uint256
  nRuleChangeActivationThreshold :: uint32_t
  nMinerConfirmationWindow :: uint32_t
  vDeployments :: "DeploymentPos \<Rightarrow> BIP9Deployment"
  powLimit :: uint256
  fPowAllowMinDifficultyBlocks :: bool
  fPowNoRetargeting :: bool
  nPowTargetTimespan :: int64_t
  nPowTargetSpacing :: int64_t
  nDifficultyAdjustmentInterval :: int64_t
  nOldPowTargetSpacing :: int64_t
  nNewPowTargetSpacing :: int64_t
  nMinimumChainWork :: uint256
  defaultAssumeValid :: uint256
  nMinimumDifficultyBlocks :: c_int
  nHighSubsidyBlocks :: c_int
  nHighSubsidyFactor :: c_int
  llmqs :: "LLMQType \<rightharpoonup> LLMQParams"
  llmqChainLocks :: LLMQType
  llmqForInstantSend :: LLMQType

subsection \<open>The height-dependent selectors\<close>

definition GetCurrentPowTargetSpacing :: "Params \<Rightarrow> c_int \<Rightarrow> int64_t" where
  "GetCurrentPowTargetSpacing p nHeight =
     (if nHardForkSix p <s nHeight
      then nNewPowTargetSpacing p
      else nOldPowTargetSpacing p)"

definition GetCurrentMasternodeCollateral :: "Params \<Rightarrow> c_int \<Rightarrow> c_int" where
  "GetCurrentMasternodeCollateral p nHeight =
     (if nHardForkSix p <s nHeight
      then nNewMasternodeCollateral p
      else nOldMasternodeCollateral p)"

subsection \<open>Default construction of Params\<close>

text \<open>
  \<open>Params\<close> has no user-provided constructor: default construction applies the
  default member initialisers (\<open>nMinimumDifficultyBlocks{0}\<close>, \<open>nHighSubsidyBlocks{0}\<close>,
  \<open>nHighSubsidyFactor{1}\<close>, \<open>llmqForInstantSend{LLMQ_NONE}\<close>) and makes the map
  \<open>llmqs\<close> empty. Every other member keeps the value its own initialisation gives it,
  which the header does not fix; the argument \<open>u\<close> supplies those values.
\<close>

definition Params_default :: "Params \<Rightarrow> Params" where
  "Params_default u =
     u\<lparr>nMinimumDifficultyBlocks := 0,
       nHighSubsidyBlocks := 0,
       nHighSubsidyFactor := 1,
       llmqs := Map.empty,
       llmqForInstantSend := LLMQ_NONE\<rparr>"

subsection \<open>The entries of the map llmqs\<close>


section \<open>Loading a parameter table\<close>

text \<open>
  The header declares the tables; the code that fills them and the check made when a
  table is loaded are not part of it. The check is modelled from the specification.
\<close>

text \<open>
  Modelled from the spec: the error of a malformed parameter table, fatal at load
  (error handling design, (a)); the loading code is missing from the sources.
\<close>

datatype load_error = ConfigInvariantViolation

text \<open>
  Modelled from the spec: the invariant of a deployment, \<open>threshold \<le> windowSize\<close>
  (data model, DeploymentSpec); the check of it at load is missing from the sources.
\<close>

definition deployment_invariant :: "BIP9Deployment \<Rightarrow> bool" where
  "deployment_invariant d \<longleftrightarrow> nThreshold d \<le>s nWindowSize d"

text \<open>
  Modelled from the spec: the invariants of a quorum type, \<open>threshold \<le> minSize \<le> size\<close>,
  \<open>miningWindowStart \<ge> 5 \<cdot> dkgPhaseBlocks\<close> and
  \<open>miningWindowStart \<le> miningWindowEnd < dkgInterval\<close> (data model, QuorumTypeSpec); the
  check of them at load is missing from the sources. The product is taken in the
  integers.
\<close>

definition llmq_invariant :: "LLMQParams \<Rightarrow> bool" where
  "llmq_invariant q \<longleftrightarrow>
     threshold q \<le>s minSize q \<and> minSize q \<le>s llmq_size q \<and>
     5 * sint (dkgPhaseBlocks q) \<le> sint (dkgMiningWindowStart q) \<and>
     dkgMiningWindowStart q \<le>s dkgMiningWindowEnd q \<and>
     dkgMiningWindowEnd q <s dkgInterval q"

text \<open>
  Modelled from the spec: the check of every entry of the array \<open>vDeployments\<close>, missing
  from the sources.
\<close>

definition deployments_valid :: "Params \<Rightarrow> bool" where
  "deployments_valid t \<longleftrightarrow>
     list_all (\<lambda>pos. deployment_invariant (vDeployments t pos)) all_DeploymentPos"

text \<open>
  Modelled from the spec: the check of every entry of the map \<open>llmqs\<close>, missing from the
  sources. The keys are bytes, so the entries are found by going through all keys.
\<close>

definition llmqs_valid :: "Params \<Rightarrow> bool" where
  "llmqs_valid t \<longleftrightarrow>
     list_all (\<lambda>k. case llmqs t k of None \<Rightarrow> True | Some q \<Rightarrow> llmq_invariant q)
       (Enum.enum :: LLMQType list)"

text \<open>
  Modelled from the spec: loading a parameter table, missing from the sources. A
  malformed table (\<open>threshold > windowSize\<close>, etc.) is rejected with
  \<open>ConfigInvariantViolation\<close>, a well-formed one is the loaded \<open>Params\<close>. The invariants
  the spec states for deployments and quorum types are checked as above; what else the
  \<open>etc.\<close> of the spec covers is left open as the parameter \<open>further\<close>.
\<close>

definition LoadParams :: "(Params \<Rightarrow> bool) \<Rightarrow> Params \<Rightarrow> load_error + Params" where
  "LoadParams further t =
     (if deployments_valid t \<and> llmqs_valid t \<and> further t
      then Inr t
      else Inl ConfigInvariantViolation)"

section \<open>The deployment state machine\<close>

text \<open>
  The header declares \<open>BIP9Deployment\<close>; the state machine that reads it is not among
  the sources and is modelled from the specification (component design,
  DeploymentStateMachine).
\<close>

text \<open>
  Modelled from the spec: the states of a deployment, \<open>DEFINED\<close> the initial one
  (data model, DeploymentWindowState); missing from the sources.
\<close>

datatype ThresholdState = DEFINED | STARTED | LOCKED_IN | ACTIVE | FAILED

text \<open>
  Modelled from the spec: the version field of a block header, 32 bits wide so that its
  top 3 bits and the bit positions 0..28 are those the spec names; missing from the
  sources.
\<close>

type_synonym block_version = "32 word"

text \<open>
  Modelled from the spec: a block signals for a deployment when its version has the
  deployment's bit set and encodes the version-bits prefix (top 3 bits = 001); missing
  from the sources.
\<close>

definition signals :: "BIP9Deployment \<Rightarrow> block_version \<Rightarrow> bool" where
  "signals d v \<longleftrightarrow>
     v AND 0xE0000000 = 0x20000000 \<and>
     0 \<le> sint (bit_pos d) \<and> bit v (nat (sint (bit_pos d)))"

text \<open>
  Modelled from the spec: the count of signalling blocks within a window, given as the
  versions of its blocks; missing from the sources.
\<close>

definition signalling_count :: "BIP9Deployment \<Rightarrow> block_version list \<Rightarrow> nat" where
  "signalling_count d vs = length (filter (signals d) vs)"

text \<open>
  Modelled from the spec: the lock-in condition of a window, the count reaches
  \<open>threshold\<close> AND median-time-past \<open>< timeout\<close>; missing from the sources.
\<close>

definition lock_in_condition ::
  "BIP9Deployment \<Rightarrow> int64_t \<Rightarrow> block_version list \<Rightarrow> bool" where
  "lock_in_condition d mtp vs \<longleftrightarrow>
     sint (nThreshold d) \<le> int (signalling_count d vs) \<and> mtp <s nTimeout d"

text \<open>
  Modelled from the spec: the transition made at a window boundary, from the state of
  the deployment, the median-time-past \<open>mtp\<close> of the window and the versions of its
  blocks; missing from the sources. DEFINED goes to FAILED once \<open>mtp \<ge> timeout\<close> and
  otherwise to STARTED once \<open>mtp \<ge> startTime\<close>; STARTED goes to LOCKED_IN when the
  lock-in condition is met and to FAILED when \<open>mtp \<ge> timeout\<close> and it was not;
  LOCKED_IN goes to ACTIVE; ACTIVE and FAILED are terminal.
\<close>

fun next_state ::
  "BIP9Deployment \<Rightarrow> ThresholdState \<Rightarrow> int64_t \<Rightarrow> block_version list \<Rightarrow> ThresholdState"
where
  "next_state d DEFINED mtp vs =
     (if nTimeout d \<le>s mtp then FAILED
      else if nStartTime d \<le>s mtp then STARTED
      else DEFINED)"
| "next_state d STARTED mtp vs =
     (if lock_in_condition d mtp vs then LOCKED_IN
      else if nTimeout d \<le>s mtp then FAILED
      else STARTED)"
| "next_state d LOCKED_IN mtp vs = ACTIVE"
| "next_state d ACTIVE mtp vs = ACTIVE"
| "next_state d FAILED mtp vs = FAILED"

section \<open>The quorum registry\<close>

text \<open>
  The header declares the two bounds, \<open>signingActiveQuorumCount\<close> and
  \<open>keepOldConnections\<close>; the registry that keeps to them is not among the sources and
  is modelled from the specification (data model and component design, QuorumRegistry).
\<close>

text \<open>
  Modelled from the spec: a finalized quorum, \<open>{type, quorumHash, members,
  thresholdPublicKey, creationHeight}\<close>; missing from the sources.
\<close>

record Quorum =
  quorum_type :: LLMQType
  quorumHash :: uint256
  members :: "uint256 list"
  thresholdPublicKey :: "uint8_t list"
  creationHeight :: c_int

text \<open>
  Modelled from the spec: the registry, an ordered sequence of active quorums and one
  of retained quorums per type, oldest first; missing from the sources.
\<close>

record QuorumRegistry =
  active :: "LLMQType \<Rightarrow> Quorum list"
  retained :: "LLMQType \<Rightarrow> Quorum list"

text \<open>Modelled from the spec: the registry before any quorum was finalized.\<close>

definition empty_registry :: QuorumRegistry where
  "empty_registry = \<lparr>active = (\<lambda>_. []), retained = (\<lambda>_. [])\<rparr>"

text \<open>
  Modelled from the spec: \<open>onQuorumFinalized\<close>, missing from the sources. The quorum is
  appended to the active list of its type; if the list exceeds
  \<open>signingActiveQuorumCount\<close>, the oldest entry moves to the retained list, and is
  evicted once the retained list exceeds \<open>keepOldConnections\<close>. \<open>P\<close> is the
  configuration of the quorum's type.
\<close>

definition onQuorumFinalized ::
  "LLMQParams \<Rightarrow> Quorum \<Rightarrow> QuorumRegistry \<Rightarrow> QuorumRegistry" where
  "onQuorumFinalized P q r =
     (let t = quorum_type q;
          a = active r t @ [q]
      in if sint (signingActiveQuorumCount P) < int (length a)
         then
           let rt = retained r t @ [hd a];
               rt' = (if sint (keepOldConnections P) < int (length rt) then tl rt else rt)
           in r\<lparr>active := (active r)(t := tl a), retained := (retained r)(t := rt')\<rparr>
         else r\<lparr>active := (active r)(t := a)\<rparr>)"

text \<open>
  Modelled from the spec: the bounds of the registry for one type, active bounded to
  \<open>signingActiveQuorumCount\<close> and retained bounded to \<open>keepOldConnections\<close>.
\<close>

definition registry_bounded :: "LLMQParams \<Rightarrow> QuorumRegistry \<Rightarrow> LLMQType \<Rightarrow> bool" where
  "registry_bounded P r t \<longleftrightarrow>
     int (length (active r t)) \<le> sint (signingActiveQuorumCount P) \<and>
     int (length (retained r t)) \<le> sint (keepOldConnections P)"

section \<open>Sample parameter values\<close>

text \<open>Concrete values on which the theorems below are instantiated.\<close>

definition sample_LLMQParams :: LLMQParams where
  "sample_LLMQParams =
     \<lparr>llmq_type = LLMQ_50_60, llmq_name = ''llmq_50_60'', llmq_size = 50, minSize = 40,
      threshold = 30, dkgInterval = 24, dkgPhaseBlocks = 2, dkgMiningWindowStart = 10,
      dkgMiningWindowEnd = 18, dkgBadVotesThreshold = 40, signingActiveQuorumCount = 24,
      keepOldConnections = 25\<rparr>"

definition sample_BIP9Deployment :: BIP9Deployment where
  "sample_BIP9Deployment =
     \<lparr>bit_pos = 1, nStartTime = 1000, nTimeout = 2000, nWindowSize = 100, nThreshold = 80\<rparr>"

definition sample_Params :: Params where
  "sample_Params =
     \<lparr>hashGenesisBlock = 0, hashDevnetGenesisBlock = 0,
      nHardForkOne = 1000, nHardForkTwo = 2000, nHardForkThree = 3000, nHardForkFour = 4000,
      nHardForkFive = 4500, nHardForkSix = 5000, nHardForkSeven = 6000, nHardForkEight = 7000,
      nTempDevFundIncreaseEnd = 0, nSubsidyHalvingInterval = 0,
      nMasternodePaymentsStartBlock = 0, nInstantSendConfirmationsRequired = 0,
      nInstantSendKeepLock = 0, nInstantSendSigsRequired = 0, nInstantSendSigsTotal = 0,
      nBudgetPaymentsStartBlock = 0, nBudgetPaymentsCycleBlocks = 0,
      nBudgetPaymentsWindowBlocks = 0, nSuperblockStartBlock = 0, nSuperblockStartHash = 0,
      nSuperblockCycle = 0, nGovernanceMinQuorum = 0, nGovernanceFilterElements = 0,
      nOldMasternodeCollateral = 1000, nNewMasternodeCollateral = 10000,
      nMasternodeMinimumConfirmations = 0, DIP0001Height = 0, nIntPhaseTotalBlocks = 0,
      nBlocksPerYear = 0, DIP0003Height = 0, DIP0003EnforcementHeight = 0,
      DIP0003EnforcementHash = 0, LLMQSwitchHeight = 0, DIP0006EnforcementHeight = 0,
      DIP0006EnforcementHash = 0, DIP0008Height = 0, DIP0008EnforcementHeight = 0,
      DIP0008EnforcementHash = 0, nRuleChangeActivationThreshold = 0,
      nMinerConfirmationWindow = 0, vDeployments = (\<lambda>_. sample_BIP9Deployment),
      powLimit = 0, fPowAllowMinDifficultyBlocks = False, fPowNoRetargeting = False,
      nPowTargetTimespan = 0, nPowTargetSpacing = 0, nDifficultyAdjustmentInterval = 0,
      nOldPowTargetSpacing = 120, nNewPowTargetSpacing = 360, nMinimumChainWork = 0,
      defaultAssumeValid = 0, nMinimumDifficultyBlocks = 0, nHighSubsidyBlocks = 0,
      nHighSubsidyFactor = 1, llmqs = [LLMQ_50_60 \<mapsto> sample_LLMQParams],
      llmqChainLocks = LLMQ_50_60, llmqForInstantSend = LLMQ_NONE\<rparr>"

text \<open>A table with one deployment whose threshold exceeds its window.\<close>

definition malformed_Params :: Params where
  "malformed_Params =
     sample_Params\<lparr>vDeployments :=
       (vDeployments sample_Params)
         (DEPLOYMENT_CSV := sample_BIP9Deployment\<lparr>nThreshold := 101\<rparr>)\<rparr>"



text \<open>A window of 100 blocks of which 80 signal bit 1.\<close>

definition sample_window :: "block_version list" where
  "sample_window = replicate 80 0x20000002 @ replicate 20 0x20000000"

text \<open>A quorum type with two active and one retained quorum, and quorums of that type.\<close>

definition small_LLMQParams :: LLMQParams where
  "small_LLMQParams =
     sample_LLMQParams\<lparr>signingActiveQuorumCount := 2, keepOldConnections := 1\<rparr>"

definition sample_Quorum :: "c_int \<Rightarrow> Quorum" where
  "sample_Quorum h =
     \<lparr>quorum_type = LLMQ_50_60, quorumHash = 0, members = [], thresholdPublicKey = [],
      creationHeight = h\<rparr>"

text \<open>A registry whose lists for that type are full.\<close>

definition full_registry :: QuorumRegistry where
  "full_registry =
     \<lparr>active = (\<lambda>_. [])(LLMQ_50_60 := [sample_Quorum 2, sample_Quorum 3]),
      retained = (\<lambda>_. [])(LLMQ_50_60 := [sample_Quorum 1])\<rparr>"

section \<open>Properties of the selectors\<close>

text \<open>
  Claim C1. For every height \<open>h\<close>, \<open>GetCurrentPowTargetSpacing h\<close> is
  \<open>nNewPowTargetSpacing\<close> when \<open>h\<close> is greater than \<open>nHardForkSix\<close> and
  \<open>nOldPowTargetSpacing\<close> when \<open>h\<close> is less than or equal to it, both read as signed
  integers: the height's relation to the hard-fork height alone selects the constant.
\<close>

theorem GetCurrentPowTargetSpacing_select:
  "(sint (nHardForkSix p) < sint h \<longrightarrow>
      GetCurrentPowTargetSpacing p h = nNewPowTargetSpacing p) \<and>
   (sint h \<le> sint (nHardForkSix p) \<longrightarrow>
      GetCurrentPowTargetSpacing p h = nOldPowTargetSpacing p)"
  by (simp add: GetCurrentPowTargetSpacing_def word_sless_alt)

theorem GetCurrentPowTargetSpacing_select_witness:
  "sint (nHardForkSix sample_Params) < sint (5001 :: c_int) \<and>
   GetCurrentPowTargetSpacing sample_Params 5001 = 360 \<and>
   sint (- 7 :: c_int) \<le> sint (nHardForkSix sample_Params) \<and>
   GetCurrentPowTargetSpacing sample_Params (- 7) = 120"
  using GetCurrentPowTargetSpacing_select [of sample_Params 5001]
    GetCurrentPowTargetSpacing_select [of sample_Params "- 7"]
  by (simp add: sample_Params_def)

text \<open>
  Claim C2. For every height \<open>h\<close>, \<open>GetCurrentMasternodeCollateral h\<close> is
  \<open>nNewMasternodeCollateral\<close> when \<open>h\<close> is greater than \<open>nHardForkSix\<close> and
  \<open>nOldMasternodeCollateral\<close> when \<open>h\<close> is less than or equal to it.
\<close>

theorem GetCurrentMasternodeCollateral_select:
  "(sint (nHardForkSix p) < sint h \<longrightarrow>
      GetCurrentMasternodeCollateral p h = nNewMasternodeCollateral p) \<and>
   (sint h \<le> sint (nHardForkSix p) \<longrightarrow>
      GetCurrentMasternodeCollateral p h = nOldMasternodeCollateral p)"
  by (simp add: GetCurrentMasternodeCollateral_def word_sless_alt)

theorem GetCurrentMasternodeCollateral_select_witness:
  "sint (nHardForkSix sample_Params) < sint (2147483647 :: c_int) \<and>
   GetCurrentMasternodeCollateral sample_Params 2147483647 = 10000 \<and>
   sint (0 :: c_int) \<le> sint (nHardForkSix sample_Params) \<and>
   GetCurrentMasternodeCollateral sample_Params 0 = 1000"
  using GetCurrentMasternodeCollateral_select [of sample_Params 2147483647]
    GetCurrentMasternodeCollateral_select [of sample_Params 0]
  by (simp add: sample_Params_def)

text \<open>
  Whether a selector returns its \<open>new\<close> field is a matter of the branch it takes, not of
  the numbers the table happens to store: the selector returns the new field at \<open>h\<close>
  when it yields \<open>b\<close> whatever values \<open>a\<close> and \<open>b\<close> the old and the new field hold.
  For either selector that is the case exactly when \<open>nHardForkSix < h\<close>.
\<close>

lemma spacing_new_branch:
  "(\<forall>a b. GetCurrentPowTargetSpacing
            (p\<lparr>nOldPowTargetSpacing := a, nNewPowTargetSpacing := b\<rparr>) h = b)
   \<longleftrightarrow> nHardForkSix p <s h"
proof
  assume A: "\<forall>a b. GetCurrentPowTargetSpacing
            (p\<lparr>nOldPowTargetSpacing := a, nNewPowTargetSpacing := b\<rparr>) h = b"
  show "nHardForkSix p <s h"
  proof (rule ccontr)
    assume "\<not> nHardForkSix p <s h"
    with A [rule_format, of 0 1] show False
      by (simp add: GetCurrentPowTargetSpacing_def)
  qed
next
  assume "nHardForkSix p <s h"
  then show "\<forall>a b. GetCurrentPowTargetSpacing
            (p\<lparr>nOldPowTargetSpacing := a, nNewPowTargetSpacing := b\<rparr>) h = b"
    by (simp add: GetCurrentPowTargetSpacing_def)
qed

lemma collateral_new_branch:
  "(\<forall>c d. GetCurrentMasternodeCollateral
            (p\<lparr>nOldMasternodeCollateral := c, nNewMasternodeCollateral := d\<rparr>) h = d)
   \<longleftrightarrow> nHardForkSix p <s h"
proof
  assume A: "\<forall>c d. GetCurrentMasternodeCollateral
            (p\<lparr>nOldMasternodeCollateral := c, nNewMasternodeCollateral := d\<rparr>) h = d"
  show "nHardForkSix p <s h"
  proof (rule ccontr)
    assume "\<not> nHardForkSix p <s h"
    with A [rule_format, of 0 1] show False
      by (simp add: GetCurrentMasternodeCollateral_def)
  qed
next
  assume "nHardForkSix p <s h"
  then show "\<forall>c d. GetCurrentMasternodeCollateral
            (p\<lparr>nOldMasternodeCollateral := c, nNewMasternodeCollateral := d\<rparr>) h = d"
    by (simp add: GetCurrentMasternodeCollateral_def)
qed

text \<open>
  Claim C3. The pow target spacing and the masternode collateral switch at the same
  hard-fork boundary: for every table and every height \<open>h\<close>,
  \<open>GetCurrentPowTargetSpacing h\<close> returns the new spacing field if and only if
  \<open>GetCurrentMasternodeCollateral h\<close> returns the new collateral field. Returning
  the new field is read as above, as the branch taken, so that tables whose old and new
  values coincide are covered as well.
\<close>

theorem spacing_and_collateral_switch_together:
  "(\<forall>a b. GetCurrentPowTargetSpacing
            (p\<lparr>nOldPowTargetSpacing := a, nNewPowTargetSpacing := b\<rparr>) h = b)
   \<longleftrightarrow>
   (\<forall>c d. GetCurrentMasternodeCollateral
            (p\<lparr>nOldMasternodeCollateral := c, nNewMasternodeCollateral := d\<rparr>) h = d)"
  unfolding spacing_new_branch collateral_new_branch ..

text \<open>
  Claim C4. The selection is a total, pure, deterministic function of the height and the
  parameter table. The two selectors are \<open>const\<close> member functions that call nothing
  and take the height by \<open>const\<close> reference, so their embedding is a function of the
  table and the height alone, with no state to read or return. The theorem states what
  remains to be said in that setting: two evaluations on tables that agree on
  \<open>nHardForkSix\<close> and on the old and new field of the selector give the same result
  whatever else differs between the tables, and for every 32-bit height, negative ones
  included, each selector returns one of its two fields (there is no error branch).
\<close>

theorem selectors_pure_total:
  "(nHardForkSix p' = nHardForkSix p \<and>
    nOldPowTargetSpacing p' = nOldPowTargetSpacing p \<and>
    nNewPowTargetSpacing p' = nNewPowTargetSpacing p \<longrightarrow>
      GetCurrentPowTargetSpacing p' h = GetCurrentPowTargetSpacing p h) \<and>
   (nHardForkSix p' = nHardForkSix p \<and>
    nOldMasternodeCollateral p' = nOldMasternodeCollateral p \<and>
    nNewMasternodeCollateral p' = nNewMasternodeCollateral p \<longrightarrow>
      GetCurrentMasternodeCollateral p' h = GetCurrentMasternodeCollateral p h) \<and>
   (GetCurrentPowTargetSpacing p h = nNewPowTargetSpacing p \<or>
    GetCurrentPowTargetSpacing p h = nOldPowTargetSpacing p) \<and>
   (GetCurrentMasternodeCollateral p h = nNewMasternodeCollateral p \<or>
    GetCurrentMasternodeCollateral p h = nOldMasternodeCollateral p)"
  by (simp add: GetCurrentPowTargetSpacing_def GetCurrentMasternodeCollateral_def)

theorem selectors_pure_total_witness:
  "GetCurrentPowTargetSpacing (Params_default sample_Params) 5001 =
     GetCurrentPowTargetSpacing sample_Params 5001 \<and>
   GetCurrentMasternodeCollateral (Params_default sample_Params) (- 1) =
     GetCurrentMasternodeCollateral sample_Params (- 1)"
  using selectors_pure_total [of "Params_default sample_Params" sample_Params 5001]
    selectors_pure_total [of "Params_default sample_Params" sample_Params "- 1"]
  by (simp add: Params_default_def)

text \<open>
  Claim C5. At the hard-fork boundary the old constants still apply: at height
  \<open>nHardForkSix\<close> itself both selectors return their old field. The new fields are
  returned from \<open>nHardForkSix + 1\<close> on (the sum taken in the integers) and at no height
  below it, the comparison of the source being a strict greater-than.
\<close>

theorem old_constants_at_boundary:
  "GetCurrentPowTargetSpacing p (nHardForkSix p) = nOldPowTargetSpacing p \<and>
   GetCurrentMasternodeCollateral p (nHardForkSix p) = nOldMasternodeCollateral p \<and>
   (sint (nHardForkSix p) + 1 \<le> sint h \<longrightarrow>
      GetCurrentPowTargetSpacing p h = nNewPowTargetSpacing p \<and>
      GetCurrentMasternodeCollateral p h = nNewMasternodeCollateral p) \<and>
   (sint h < sint (nHardForkSix p) + 1 \<longrightarrow>
      GetCurrentPowTargetSpacing p h = nOldPowTargetSpacing p \<and>
      GetCurrentMasternodeCollateral p h = nOldMasternodeCollateral p)"
  by (simp add: GetCurrentPowTargetSpacing_def GetCurrentMasternodeCollateral_def
      word_sless_alt)

theorem old_constants_at_boundary_witness:
  "GetCurrentPowTargetSpacing sample_Params 5000 = 120 \<and>
   GetCurrentMasternodeCollateral sample_Params 5000 = 1000 \<and>
   sint (nHardForkSix sample_Params) + 1 \<le> sint (5001 :: c_int) \<and>
   GetCurrentPowTargetSpacing sample_Params 5001 = 360 \<and>
   GetCurrentMasternodeCollateral sample_Params 5001 = 10000 \<and>
   sint (4999 :: c_int) < sint (nHardForkSix sample_Params) + 1 \<and>
   GetCurrentPowTargetSpacing sample_Params 4999 = 120 \<and>
   GetCurrentMasternodeCollateral sample_Params 4999 = 1000"
  using old_constants_at_boundary [of sample_Params 5001]
    old_constants_at_boundary [of sample_Params 4999]
  by (simp add: sample_Params_def)

section \<open>The quorum type sentinel\<close>

text \<open>
  Claim C10. \<open>LLMQ_NONE\<close> is the byte \<open>0xff\<close>, it differs from each of the other
  enumerators of \<open>LLMQType\<close>, and a default-constructed \<open>Params\<close> has
  \<open>llmqForInstantSend = LLMQ_NONE\<close>; its map \<open>llmqs\<close> has no entry under that key, so
  no quorum is configured for InstantSend until the member is assigned.
\<close>

theorem LLMQ_NONE_sentinel:
  "LLMQ_NONE = (0xff :: uint8_t) \<and>
   LLMQ_NONE \<noteq> LLMQ_50_60 \<and> LLMQ_NONE \<noteq> LLMQ_400_60 \<and> LLMQ_NONE \<noteq> LLMQ_400_85 \<and>
   LLMQ_NONE \<noteq> LLMQ_10_60 \<and> LLMQ_NONE \<noteq> LLMQ_30_80 \<and> LLMQ_NONE \<noteq> LLMQ_5_60 \<and>
   llmqForInstantSend (Params_default u) = LLMQ_NONE \<and>
   llmqs (Params_default u) (llmqForInstantSend (Params_default u)) = None"
  by (simp add: LLMQ_NONE_def LLMQ_50_60_def LLMQ_400_60_def LLMQ_400_85_def
      LLMQ_10_60_def LLMQ_30_80_def LLMQ_5_60_def Params_default_def)

section \<open>Properties of loading\<close>

lemma length_all_DeploymentPos: "length all_DeploymentPos = MAX_VERSION_BITS_DEPLOYMENTS"
  by (simp add: all_DeploymentPos_def MAX_VERSION_BITS_DEPLOYMENTS_def)

lemma set_all_DeploymentPos: "set all_DeploymentPos = UNIV"
proof -
  have "pos \<in> set all_DeploymentPos" for pos
    by (cases pos) (simp_all add: all_DeploymentPos_def)
  then show ?thesis by blast
qed

lemma deployments_valid_iff:
  "deployments_valid t \<longleftrightarrow> (\<forall>pos. deployment_invariant (vDeployments t pos))"
  by (simp add: deployments_valid_def list_all_iff set_all_DeploymentPos)

lemma llmqs_valid_iff:
  "llmqs_valid t \<longleftrightarrow> (\<forall>k q. llmqs t k = Some q \<longrightarrow> llmq_invariant q)"
  by (auto simp add: llmqs_valid_def list_all_iff enum_UNIV split: option.splits)

lemma sample_llmqs_valid: "llmqs_valid sample_Params"
  by (simp add: llmqs_valid_iff sample_Params_def llmq_invariant_def sample_LLMQParams_def
      word_sle_eq word_sless_alt)

lemma sample_deployments_valid: "deployments_valid sample_Params"
  by (simp add: deployments_valid_iff sample_Params_def deployment_invariant_def
      sample_BIP9Deployment_def word_sle_eq)

lemma LoadParams_sample: "LoadParams (\<lambda>_. True) sample_Params = Inr sample_Params"
  by (simp add: LoadParams_def sample_llmqs_valid sample_deployments_valid)

text \<open>
  Claim C6. Loading a parameter table that contains a deployment whose \<open>nThreshold\<close>
  exceeds its \<open>nWindowSize\<close> fails with \<open>ConfigInvariantViolation\<close>, and every entry
  of \<open>vDeployments\<close> of a successfully loaded \<open>Params\<close> has
  \<open>nThreshold \<le> nWindowSize\<close>.
\<close>

theorem load_rejects_threshold_above_window:
  "(sint (nWindowSize (vDeployments t pos)) < sint (nThreshold (vDeployments t pos)) \<longrightarrow>
      LoadParams further t = Inl ConfigInvariantViolation) \<and>
   (LoadParams further t = Inr p \<longrightarrow>
      sint (nThreshold (vDeployments p pos)) \<le> sint (nWindowSize (vDeployments p pos)))"
proof (intro conjI impI)
  assume "sint (nWindowSize (vDeployments t pos)) < sint (nThreshold (vDeployments t pos))"
  then have "\<not> deployment_invariant (vDeployments t pos)"
    by (simp add: deployment_invariant_def word_sle_eq)
  then have "\<not> deployments_valid t"
    by (auto simp add: deployments_valid_iff)
  then show "LoadParams further t = Inl ConfigInvariantViolation"
    by (simp add: LoadParams_def)
next
  assume "LoadParams further t = Inr p"
  then have "p = t" and "deployments_valid t"
    by (auto simp add: LoadParams_def split: if_splits)
  then show "sint (nThreshold (vDeployments p pos)) \<le> sint (nWindowSize (vDeployments p pos))"
    by (simp add: deployments_valid_iff deployment_invariant_def word_sle_eq)
qed

theorem load_rejects_threshold_above_window_witness:
  "sint (nWindowSize (vDeployments malformed_Params DEPLOYMENT_CSV))
     < sint (nThreshold (vDeployments malformed_Params DEPLOYMENT_CSV)) \<and>
   LoadParams (\<lambda>_. True) malformed_Params = Inl ConfigInvariantViolation \<and>
   LoadParams (\<lambda>_. True) sample_Params = Inr sample_Params \<and>
   sint (nThreshold (vDeployments sample_Params DEPLOYMENT_CSV))
     \<le> sint (nWindowSize (vDeployments sample_Params DEPLOYMENT_CSV))"
proof -
  have bad: "sint (nWindowSize (vDeployments malformed_Params DEPLOYMENT_CSV))
     < sint (nThreshold (vDeployments malformed_Params DEPLOYMENT_CSV))"
    by (simp add: malformed_Params_def sample_BIP9Deployment_def)
  from bad LoadParams_sample
    load_rejects_threshold_above_window [of malformed_Params DEPLOYMENT_CSV "\<lambda>_. True"]
    load_rejects_threshold_above_window
      [of sample_Params DEPLOYMENT_CSV "\<lambda>_. True" sample_Params]
  show ?thesis by blast
qed







section \<open>Properties of the deployment state machine\<close>

text \<open>
  Claim C8. The timeout check takes precedence over lock-in: for a window in state
  STARTED whose median-time-past is greater than or equal to the deployment's timeout
  while the signalling count reaches the threshold, the resulting state is FAILED, not
  LOCKED_IN.
\<close>

theorem timeout_precedes_lock_in:
  assumes "sint (nTimeout d) \<le> sint mtp"
    and "sint (nThreshold d) \<le> int (signalling_count d vs)"
  shows "next_state d STARTED mtp vs = FAILED \<and> next_state d STARTED mtp vs \<noteq> LOCKED_IN"
  using assms by (simp add: lock_in_condition_def word_sle_eq word_sless_alt)

lemma sample_window_count: "signalling_count sample_BIP9Deployment sample_window = 80"
  by (simp add: signalling_count_def sample_window_def signals_def sample_BIP9Deployment_def)

theorem timeout_precedes_lock_in_witness:
  "sint (nTimeout sample_BIP9Deployment) \<le> sint (2000 :: int64_t) \<and>
   sint (nThreshold sample_BIP9Deployment)
     \<le> int (signalling_count sample_BIP9Deployment sample_window) \<and>
   next_state sample_BIP9Deployment STARTED 2000 sample_window = FAILED"
proof -
  have t: "sint (nTimeout sample_BIP9Deployment) \<le> sint (2000 :: int64_t)"
    by (simp add: sample_BIP9Deployment_def)
  have c: "sint (nThreshold sample_BIP9Deployment)
     \<le> int (signalling_count sample_BIP9Deployment sample_window)"
    by (simp add: sample_window_count) (simp add: sample_BIP9Deployment_def)
  from timeout_precedes_lock_in [OF t c] t c show ?thesis by simp
qed

section \<open>Properties of the quorum registry\<close>

lemma onQuorumFinalized_other_type:
  "t \<noteq> quorum_type q \<Longrightarrow>
     active (onQuorumFinalized P q r) t = active r t \<and>
     retained (onQuorumFinalized P q r) t = retained r t"
  by (simp add: onQuorumFinalized_def Let_def)

lemma onQuorumFinalized_no_overflow:
  "int (length (active r (quorum_type q))) < sint (signingActiveQuorumCount P) \<Longrightarrow>
     active (onQuorumFinalized P q r) (quorum_type q) = active r (quorum_type q) @ [q] \<and>
     retained (onQuorumFinalized P q r) (quorum_type q) = retained r (quorum_type q)"
  by (simp add: onQuorumFinalized_def Let_def)

lemma onQuorumFinalized_overflow:
  "sint (signingActiveQuorumCount P) \<le> int (length (active r (quorum_type q))) \<Longrightarrow>
     active (onQuorumFinalized P q r) (quorum_type q) = tl (active r (quorum_type q) @ [q]) \<and>
     retained (onQuorumFinalized P q r) (quorum_type q) =
       (let rt = retained r (quorum_type q) @ [hd (active r (quorum_type q) @ [q])]
        in if sint (keepOldConnections P) < int (length rt) then tl rt else rt)"
  by (simp add: onQuorumFinalized_def Let_def)

text \<open>The bounds are an invariant of \<open>onQuorumFinalized\<close>.\<close>

lemma onQuorumFinalized_bounded:
  assumes c: "0 \<le> sint (signingActiveQuorumCount P)"
    and k: "0 \<le> sint (keepOldConnections P)"
    and b: "registry_bounded P r t"
  shows "registry_bounded P (onQuorumFinalized P q r) t"
proof (cases "t = quorum_type q")
  case False
  with b show ?thesis
    by (simp add: registry_bounded_def onQuorumFinalized_other_type)
next
  case True
  show ?thesis
  proof (cases "int (length (active r t)) < sint (signingActiveQuorumCount P)")
    case less: True
    with b True show ?thesis
      using onQuorumFinalized_no_overflow [of r q P]
      by (simp add: registry_bounded_def)
  next
    case False
    then have "sint (signingActiveQuorumCount P) \<le> int (length (active r (quorum_type q)))"
      using True by simp
    from onQuorumFinalized_overflow [OF this] b True k show ?thesis
      by (auto simp add: registry_bounded_def Let_def)
  qed
qed

lemma fold_onQuorumFinalized_bounded:
  assumes c: "0 \<le> sint (signingActiveQuorumCount P)"
    and k: "0 \<le> sint (keepOldConnections P)"
  shows "registry_bounded P r t \<Longrightarrow> registry_bounded P (fold (onQuorumFinalized P) qs r) t"
proof (induction qs arbitrary: r)
  case Nil
  then show ?case by simp
next
  case (Cons q qs)
  from Cons.prems have "registry_bounded P (onQuorumFinalized P q r) t"
    by (rule onQuorumFinalized_bounded [OF c k])
  then show ?case
    using Cons.IH by simp
qed

text \<open>While the active list has room, quorums of its type are appended and nothing moves.\<close>

lemma fold_onQuorumFinalized_fill:
  assumes "\<forall>q \<in> set qs. quorum_type q = t"
    and "int (length (active r t) + length qs) \<le> sint (signingActiveQuorumCount P)"
  shows "active (fold (onQuorumFinalized P) qs r) t = active r t @ qs \<and>
         retained (fold (onQuorumFinalized P) qs r) t = retained r t"
  using assms
proof (induction qs arbitrary: r)
  case Nil
  then show ?case by simp
next
  case (Cons q qs)
  from Cons.prems have qt: "quorum_type q = t"
    and lt: "int (length (active r (quorum_type q))) < sint (signingActiveQuorumCount P)"
    by simp_all
  from onQuorumFinalized_no_overflow [OF lt] qt
  have step: "active (onQuorumFinalized P q r) t = active r t @ [q]"
    "retained (onQuorumFinalized P q r) t = retained r t"
    by simp_all
  from Cons.prems step
  have "active (fold (onQuorumFinalized P) qs (onQuorumFinalized P q r)) t
          = active (onQuorumFinalized P q r) t @ qs \<and>
        retained (fold (onQuorumFinalized P) qs (onQuorumFinalized P q r)) t
          = retained (onQuorumFinalized P q r) t"
    by (intro Cons.IH) simp_all
  with step show ?case by simp
qed

lemma fold_onQuorumFinalized_one_more:
  assumes c: "0 \<le> sint (signingActiveQuorumCount P)"
    and ty: "\<forall>q \<in> set qs. quorum_type q = t"
    and len: "int (length qs) = sint (signingActiveQuorumCount P) + 1"
  shows "active (fold (onQuorumFinalized P) qs empty_registry) t = tl qs \<and>
         retained (fold (onQuorumFinalized P) qs empty_registry) t =
           (if 1 \<le> sint (keepOldConnections P) then [hd qs] else [])"
proof -
  from len c have ne: "qs \<noteq> []" by auto
  define ys y where "ys = butlast qs" and "y = last qs"
  with ne have qs: "qs = ys @ [y]" by simp
  from ty qs have tys: "\<forall>q \<in> set ys. quorum_type q = t" and ty_y: "quorum_type y = t"
    by simp_all
  from len qs have leny: "int (length ys) = sint (signingActiveQuorumCount P)" by simp
  define r where "r = fold (onQuorumFinalized P) ys empty_registry"
  have "active r t = active empty_registry t @ ys \<and> retained r t = retained empty_registry t"
    unfolding r_def using tys leny
    by (intro fold_onQuorumFinalized_fill) (simp_all add: empty_registry_def)
  then have r: "active r t = ys" "retained r t = []"
    by (simp_all add: empty_registry_def)
  have "sint (signingActiveQuorumCount P) \<le> int (length (active r (quorum_type y)))"
    using r leny ty_y by simp
  from onQuorumFinalized_overflow [OF this] r ty_y
  have "active (onQuorumFinalized P y r) t = tl (ys @ [y])"
    and "retained (onQuorumFinalized P y r) t =
       (if sint (keepOldConnections P) < 1 then [] else [hd (ys @ [y])])"
    by (simp_all add: Let_def)
  moreover have "fold (onQuorumFinalized P) qs empty_registry = onQuorumFinalized P y r"
    by (simp add: qs r_def)
  ultimately show ?thesis
    by (auto simp add: qs)
qed

text \<open>
  An entry that was in the registry before a call and is in neither list after it was
  dropped from the retained list, which had overflowed, as had the active list.
\<close>

lemma onQuorumFinalized_evicts:
  assumes x: "x \<in> set (active r t) \<union> set (retained r t)"
    and gone: "x \<notin> set (active (onQuorumFinalized P q r) t)
                  \<union> set (retained (onQuorumFinalized P q r) t)"
  shows "sint (signingActiveQuorumCount P) < int (length (active r t)) + 1 \<and>
         sint (keepOldConnections P) < int (length (retained r t)) + 1"
proof -
  have t: "t = quorum_type q"
  proof (rule ccontr)
    assume "t \<noteq> quorum_type q"
    from onQuorumFinalized_other_type [OF this, of P r] x gone show False by simp
  qed
  show ?thesis
  proof (cases "int (length (active r t)) < sint (signingActiveQuorumCount P)")
    case True
    with t onQuorumFinalized_no_overflow [of r q P] x gone show ?thesis by auto
  next
    case False
    then have ov: "sint (signingActiveQuorumCount P) \<le> int (length (active r (quorum_type q)))"
      using t by simp
    show ?thesis
    proof (cases "sint (keepOldConnections P) < int (length (retained r t)) + 1")
      case True
      with False show ?thesis by simp
    next
      case keep: False
      from onQuorumFinalized_overflow [OF ov] keep t
      have a: "active (onQuorumFinalized P q r) t = tl (active r t @ [q])"
        and rt: "retained (onQuorumFinalized P q r) t = retained r t @ [hd (active r t @ [q])]"
        by (simp_all add: Let_def)
      have "set (active r t) \<subseteq> set (tl (active r t @ [q])) \<union> {hd (active r t @ [q])}"
        by (cases "active r t") auto
      with x gone a rt show ?thesis by auto
    qed
  qed
qed

text \<open>
  Claim C9. The bounds of the registry are maintained by every \<open>onQuorumFinalized\<close>
  call, the two configured numbers being non-negative: a registry within its bounds
  stays within them, so that after appending any sequence of finalized quorums to the
  empty registry the active list of a type holds at most \<open>signingActiveQuorumCount\<close>
  quorums and the retained list at most \<open>keepOldConnections\<close>. In particular, appending
  \<open>signingActiveQuorumCount + 1\<close> quorums of one type leaves exactly
  \<open>signingActiveQuorumCount\<close> of them active, all but the oldest, and the oldest in the
  retained list, capped at \<open>keepOldConnections\<close>. An entry leaves the registry in a
  call only when the retained list overflows too.
\<close>

theorem QuorumRegistry_bounds_maintained:
  assumes c: "0 \<le> sint (signingActiveQuorumCount P)"
    and k: "0 \<le> sint (keepOldConnections P)"
  shows
    "(registry_bounded P r t \<longrightarrow> registry_bounded P (onQuorumFinalized P q r) t) \<and>
     int (length (active (fold (onQuorumFinalized P) qs empty_registry) t))
       \<le> sint (signingActiveQuorumCount P) \<and>
     int (length (retained (fold (onQuorumFinalized P) qs empty_registry) t))
       \<le> sint (keepOldConnections P) \<and>
     ((\<forall>q' \<in> set qs. quorum_type q' = t) \<and>
      int (length qs) = sint (signingActiveQuorumCount P) + 1 \<longrightarrow>
        active (fold (onQuorumFinalized P) qs empty_registry) t = tl qs \<and>
        int (length (active (fold (onQuorumFinalized P) qs empty_registry) t))
          = sint (signingActiveQuorumCount P) \<and>
        retained (fold (onQuorumFinalized P) qs empty_registry) t
          = (if 1 \<le> sint (keepOldConnections P) then [hd qs] else [])) \<and>
     (x \<in> set (active r t) \<union> set (retained r t) \<and>
      x \<notin> set (active (onQuorumFinalized P q r) t)
            \<union> set (retained (onQuorumFinalized P q r) t) \<longrightarrow>
        sint (signingActiveQuorumCount P) < int (length (active r t)) + 1 \<and>
        sint (keepOldConnections P) < int (length (retained r t)) + 1)"
proof -
  have step: "registry_bounded P r t \<longrightarrow> registry_bounded P (onQuorumFinalized P q r) t"
    using onQuorumFinalized_bounded [OF c k] by blast
  have "registry_bounded P empty_registry t"
    using c k by (simp add: registry_bounded_def empty_registry_def)
  then have "registry_bounded P (fold (onQuorumFinalized P) qs empty_registry) t"
    by (rule fold_onQuorumFinalized_bounded [OF c k])
  then have bounds:
    "int (length (active (fold (onQuorumFinalized P) qs empty_registry) t))
       \<le> sint (signingActiveQuorumCount P)"
    "int (length (retained (fold (onQuorumFinalized P) qs empty_registry) t))
       \<le> sint (keepOldConnections P)"
    by (simp_all add: registry_bounded_def)
  have one_more:
    "active (fold (onQuorumFinalized P) qs empty_registry) t = tl qs \<and>
     int (length (active (fold (onQuorumFinalized P) qs empty_registry) t))
       = sint (signingActiveQuorumCount P) \<and>
     retained (fold (onQuorumFinalized P) qs empty_registry) t
       = (if 1 \<le> sint (keepOldConnections P) then [hd qs] else [])"
    if ty: "\<forall>q' \<in> set qs. quorum_type q' = t"
      and len: "int (length qs) = sint (signingActiveQuorumCount P) + 1"
  proof -
    from fold_onQuorumFinalized_one_more [OF c ty len]
    have *: "active (fold (onQuorumFinalized P) qs empty_registry) t = tl qs"
      "retained (fold (onQuorumFinalized P) qs empty_registry) t
         = (if 1 \<le> sint (keepOldConnections P) then [hd qs] else [])"
      by simp_all
    from len c have "int (length (tl qs)) = sint (signingActiveQuorumCount P)"
      by (cases qs) simp_all
    with * show ?thesis by simp
  qed
  have evict:
    "sint (signingActiveQuorumCount P) < int (length (active r t)) + 1 \<and>
     sint (keepOldConnections P) < int (length (retained r t)) + 1"
    if "x \<in> set (active r t) \<union> set (retained r t)"
      and "x \<notin> set (active (onQuorumFinalized P q r) t)
              \<union> set (retained (onQuorumFinalized P q r) t)"
    using that by (rule onQuorumFinalized_evicts)
  from step bounds one_more evict show ?thesis by blast
qed

theorem QuorumRegistry_bounds_maintained_witness:
  "0 \<le> sint (signingActiveQuorumCount small_LLMQParams) \<and>
   0 \<le> sint (keepOldConnections small_LLMQParams) \<and>
   registry_bounded small_LLMQParams full_registry LLMQ_50_60 \<and>
   registry_bounded small_LLMQParams
     (onQuorumFinalized small_LLMQParams (sample_Quorum 4) full_registry) LLMQ_50_60 \<and>
   quorum_type (sample_Quorum 1) = LLMQ_50_60 \<and>
   quorum_type (sample_Quorum 2) = LLMQ_50_60 \<and>
   quorum_type (sample_Quorum 3) = LLMQ_50_60 \<and>
   int (length [sample_Quorum 1, sample_Quorum 2, sample_Quorum 3])
     = sint (signingActiveQuorumCount small_LLMQParams) + 1 \<and>
   active (fold (onQuorumFinalized small_LLMQParams)
      [sample_Quorum 1, sample_Quorum 2, sample_Quorum 3] empty_registry) LLMQ_50_60
     = [sample_Quorum 2, sample_Quorum 3] \<and>
   retained (fold (onQuorumFinalized small_LLMQParams)
      [sample_Quorum 1, sample_Quorum 2, sample_Quorum 3] empty_registry) LLMQ_50_60
     = [sample_Quorum 1] \<and>
   sample_Quorum 1 \<in> set (active full_registry LLMQ_50_60)
                      \<union> set (retained full_registry LLMQ_50_60) \<and>
   sample_Quorum 1 \<notin>
     set (active (onQuorumFinalized small_LLMQParams (sample_Quorum 4) full_registry)
            LLMQ_50_60)
     \<union> set (retained (onQuorumFinalized small_LLMQParams (sample_Quorum 4) full_registry)
            LLMQ_50_60) \<and>
   sint (keepOldConnections small_LLMQParams)
     < int (length (retained full_registry LLMQ_50_60)) + 1"
proof -
  have c: "0 \<le> sint (signingActiveQuorumCount small_LLMQParams)"
    and k: "0 \<le> sint (keepOldConnections small_LLMQParams)"
    and k1: "1 \<le> sint (keepOldConnections small_LLMQParams)"
    by (simp_all add: small_LLMQParams_def)
  have b: "registry_bounded small_LLMQParams full_registry LLMQ_50_60"
    by (simp add: registry_bounded_def full_registry_def small_LLMQParams_def)
  have ty: "\<forall>q' \<in> set [sample_Quorum 1, sample_Quorum 2, sample_Quorum 3].
      quorum_type q' = LLMQ_50_60"
    by (simp add: sample_Quorum_def)
  have len: "int (length [sample_Quorum 1, sample_Quorum 2, sample_Quorum 3])
     = sint (signingActiveQuorumCount small_LLMQParams) + 1"
    by (simp add: small_LLMQParams_def)
  have ty': "quorum_type (sample_Quorum 1) = LLMQ_50_60"
    "quorum_type (sample_Quorum 2) = LLMQ_50_60"
    "quorum_type (sample_Quorum 3) = LLMQ_50_60"
    by (simp_all add: sample_Quorum_def)
  have x: "sample_Quorum 1 \<in> set (active full_registry LLMQ_50_60)
                      \<union> set (retained full_registry LLMQ_50_60)"
    by (simp add: full_registry_def)
  have gone: "sample_Quorum 1 \<notin>
     set (active (onQuorumFinalized small_LLMQParams (sample_Quorum 4) full_registry)
            LLMQ_50_60)
     \<union> set (retained (onQuorumFinalized small_LLMQParams (sample_Quorum 4) full_registry)
            LLMQ_50_60)"
    by (simp add: onQuorumFinalized_def Let_def full_registry_def small_LLMQParams_def
        sample_Quorum_def)
  note T = QuorumRegistry_bounds_maintained [OF c k, of full_registry LLMQ_50_60
      "sample_Quorum 4" "[sample_Quorum 1, sample_Quorum 2, sample_Quorum 3]"
      "sample_Quorum 1"]
  from T b have b': "registry_bounded small_LLMQParams
     (onQuorumFinalized small_LLMQParams (sample_Quorum 4) full_registry) LLMQ_50_60"
    by blast
  from T ty len have "active (fold (onQuorumFinalized small_LLMQParams)
      [sample_Quorum 1, sample_Quorum 2, sample_Quorum 3] empty_registry) LLMQ_50_60
     = tl [sample_Quorum 1, sample_Quorum 2, sample_Quorum 3]"
    and "retained (fold (onQuorumFinalized small_LLMQParams)
      [sample_Quorum 1, sample_Quorum 2, sample_Quorum 3] empty_registry) LLMQ_50_60
     = (if 1 \<le> sint (keepOldConnections small_LLMQParams)
        then [hd [sample_Quorum 1, sample_Quorum 2, sample_Quorum 3]] else [])"
    by blast+
  with k1 have a: "active (fold (onQuorumFinalized small_LLMQParams)
      [sample_Quorum 1, sample_Quorum 2, sample_Quorum 3] empty_registry) LLMQ_50_60
     = [sample_Quorum 2, sample_Quorum 3]"
    and r: "retained (fold (onQuorumFinalized small_LLMQParams)
      [sample_Quorum 1, sample_Quorum 2, sample_Quorum 3] empty_registry) LLMQ_50_60
     = [sample_Quorum 1]"
    by simp_all
  from T x gone have e: "sint (keepOldConnections small_LLMQParams)
     < int (length (retained full_registry LLMQ_50_60)) + 1"
    by blast
  from c k b b' ty' len a r x gone e show ?thesis
    by (intro conjI)
qed

end
